theory Spec2Isabelle
  imports Main "HOL-Library.Product_Lexorder"
begin

section \<open>Values returned by the predicates of allens.py\<close>

text \<open>
  Every function of \<^verbatim>\<open>allens.py\<close> returns the integer 1, the integer 0, or falls off
  its end and so returns \<^verbatim>\<open>None\<close>. The callers test the result with \<^verbatim>\<open>if\<close>, that is
  by Python's truth value: \<^verbatim>\<open>None\<close> and 0 are false, every other integer is true.
\<close>

datatype pyval = PyNone | PyInt int

fun truthy :: "pyval \<Rightarrow> bool" where
  "truthy PyNone = False"
| "truthy (PyInt n) = (n \<noteq> 0)"

text \<open>Python's \<^verbatim>\<open>x and y\<close>: the value \<^verbatim>\<open>x\<close> when it is false, the value \<^verbatim>\<open>y\<close> otherwise.\<close>

definition py_and :: "pyval \<Rightarrow> pyval \<Rightarrow> pyval" where
  "py_and x y = (if truthy x then y else x)"

section \<open>Dates\<close>

text \<open>
  The fixtures are \<^verbatim>\<open>datetime.date\<close> objects, which Python orders by year, then month,
  then day: the lexicographic order of the triple. The predicates themselves only use
  \<^verbatim>\<open><\<close>, \<^verbatim>\<open><=\<close>, \<^verbatim>\<open>>\<close>, \<^verbatim>\<open>>=\<close> and \<^verbatim>\<open>==\<close>, so they are modelled over any linear order.
\<close>

type_synonym date = "nat \<times> nat \<times> nat"

definition date :: "nat \<Rightarrow> nat \<Rightarrow> nat \<Rightarrow> date" where
  "date y m d = (y, m, d)"

section \<open>The validator and the thirteen predicates\<close>

definition valid_dates :: "'a::linorder \<Rightarrow> 'a \<Rightarrow> pyval" where
  "valid_dates start stop = (if start > stop then PyInt 0 else PyInt 1)"

definition precedes :: "'a::linorder \<Rightarrow> 'a \<Rightarrow> 'a \<Rightarrow> 'a \<Rightarrow> pyval" where
  "precedes begin_start begin_end end_start end_end =
     (if truthy (py_and (valid_dates begin_start begin_end) (valid_dates end_start end_end))
      then (if begin_start < end_start \<and> begin_end < end_start then PyInt 1 else PyInt 0)
      else PyNone)"

definition preceded_by :: "'a::linorder \<Rightarrow> 'a \<Rightarrow> 'a \<Rightarrow> 'a \<Rightarrow> pyval" where
  "preceded_by begin_start begin_end end_start end_end =
     (if truthy (precedes end_start end_end begin_start begin_end) then PyInt 1 else PyInt 0)"

definition meets :: "'a::linorder \<Rightarrow> 'a \<Rightarrow> 'a \<Rightarrow> 'a \<Rightarrow> pyval" where
  "meets begin_start begin_end end_start end_end =
     (if truthy (py_and (valid_dates begin_start begin_end) (valid_dates end_start end_end))
      then (if begin_start < end_start \<and> begin_end \<le> end_start then PyInt 1 else PyInt 0)
      else PyNone)"

definition met_by :: "'a::linorder \<Rightarrow> 'a \<Rightarrow> 'a \<Rightarrow> 'a \<Rightarrow> pyval" where
  "met_by begin_start begin_end end_start end_end =
     (if truthy (meets end_start end_end begin_start begin_end) then PyInt 1 else PyInt 0)"

definition overlaps :: "'a::linorder \<Rightarrow> 'a \<Rightarrow> 'a \<Rightarrow> 'a \<Rightarrow> pyval" where
  "overlaps begin_start begin_end end_start end_end =
     (if truthy (py_and (valid_dates begin_start begin_end) (valid_dates end_start end_end))
      then (if begin_start < end_start \<and> begin_end \<ge> end_start then PyInt 1 else PyInt 0)
      else PyNone)"

definition overlapped_by :: "'a::linorder \<Rightarrow> 'a \<Rightarrow> 'a \<Rightarrow> 'a \<Rightarrow> pyval" where
  "overlapped_by begin_start begin_end end_start end_end =
     (if truthy (overlaps end_start end_end begin_start begin_end) then PyInt 1 else PyInt 0)"

definition finished_by :: "'a::linorder \<Rightarrow> 'a \<Rightarrow> 'a \<Rightarrow> 'a \<Rightarrow> pyval" where
  "finished_by begin_start begin_end end_start end_end =
     (if truthy (py_and (valid_dates begin_start begin_end) (valid_dates end_start end_end))
      then (if begin_start < end_start \<and> begin_end = end_end then PyInt 1 else PyInt 0)
      else PyNone)"

definition finishes :: "'a::linorder \<Rightarrow> 'a \<Rightarrow> 'a \<Rightarrow> 'a \<Rightarrow> pyval" where
  "finishes begin_start begin_end end_start end_end =
     (if truthy (finished_by end_start end_end begin_start begin_end) then PyInt 1 else PyInt 0)"

definition contains :: "'a::linorder \<Rightarrow> 'a \<Rightarrow> 'a \<Rightarrow> 'a \<Rightarrow> pyval" where
  "contains begin_start begin_end end_start end_end =
     (if truthy (py_and (valid_dates begin_start begin_end) (valid_dates end_start end_end))
      then (if begin_start < end_start \<and> begin_end > end_start then PyInt 1 else PyInt 0)
      else PyNone)"

definition during :: "'a::linorder \<Rightarrow> 'a \<Rightarrow> 'a \<Rightarrow> 'a \<Rightarrow> pyval" where
  "during begin_start begin_end end_start end_end =
     (if truthy (contains end_start end_end begin_start begin_end) then PyInt 1 else PyInt 0)"

definition starts :: "'a::linorder \<Rightarrow> 'a \<Rightarrow> 'a \<Rightarrow> 'a \<Rightarrow> pyval" where
  "starts begin_start begin_end end_start end_end =
     (if truthy (py_and (valid_dates begin_start begin_end) (valid_dates end_start end_end))
      then (if begin_start = end_start \<and> begin_end < end_end then PyInt 1 else PyInt 0)
      else PyNone)"

definition started_by :: "'a::linorder \<Rightarrow> 'a \<Rightarrow> 'a \<Rightarrow> 'a \<Rightarrow> pyval" where
  "started_by begin_start begin_end end_start end_end =
     (if truthy (starts end_start end_end begin_start begin_end) then PyInt 1 else PyInt 0)"

definition equals :: "'a::linorder \<Rightarrow> 'a \<Rightarrow> 'a \<Rightarrow> 'a \<Rightarrow> pyval" where
  "equals begin_start begin_end end_start end_end =
     (if truthy (py_and (valid_dates begin_start begin_end) (valid_dates end_start end_end))
      then (if begin_start = end_start \<and> begin_end = end_end then PyInt 1 else PyInt 0)
      else PyNone)"

section \<open>Relations and conflict categories\<close>

datatype relation =
    Precedes | Preceded_by | Meets | Met_by | Overlaps | Overlapped_by
  | Finished_by | Finishes | Contains | During | Starts | Started_by | Equals

datatype conflict_category = EQUAL | COMPATIBLE | CONFLICTING

text \<open>
  Modelled from the spec: the relation-to-category mapper. \<^verbatim>\<open>allens.py\<close> has no such
  function; only its header comment describes the three states. The definition follows
  section 4.3 of the specification word for word.
\<close>

fun category :: "relation \<Rightarrow> conflict_category" where
  "category Equals = EQUAL"
| "category Precedes = COMPATIBLE"
| "category Preceded_by = COMPATIBLE"
| "category Meets = COMPATIBLE"
| "category Met_by = COMPATIBLE"
| "category Overlaps = CONFLICTING"
| "category Overlapped_by = CONFLICTING"
| "category Finished_by = CONFLICTING"
| "category Finishes = CONFLICTING"
| "category Contains = CONFLICTING"
| "category During = CONFLICTING"
| "category Starts = CONFLICTING"
| "category Started_by = CONFLICTING"





section \<open>Basic facts about the validator\<close>

lemma guard_valid [simp]:
  "truthy (py_and (valid_dates a1 a2) (valid_dates b1 b2)) \<longleftrightarrow> a1 \<le> a2 \<and> b1 \<le> b2"
  by (auto simp: py_and_def valid_dates_def)

lemmas base_defs =
  precedes_def meets_def overlaps_def finished_by_def contains_def starts_def equals_def

lemmas complement_defs =
  preceded_by_def met_by_def overlapped_by_def finishes_def during_def started_by_def

section \<open>When each predicate is true\<close>

lemma truthy_precedes:
  "truthy (precedes a1 a2 b1 b2) \<longleftrightarrow> a1 \<le> a2 \<and> b1 \<le> b2 \<and> a1 < b1 \<and> a2 < b1"
  by (auto simp: precedes_def)

lemma truthy_meets:
  "truthy (meets a1 a2 b1 b2) \<longleftrightarrow> a1 \<le> a2 \<and> b1 \<le> b2 \<and> a1 < b1 \<and> a2 \<le> b1"
  by (auto simp: meets_def)

lemma truthy_overlaps:
  "truthy (overlaps a1 a2 b1 b2) \<longleftrightarrow> a1 \<le> a2 \<and> b1 \<le> b2 \<and> a1 < b1 \<and> b1 \<le> a2"
  by (auto simp: overlaps_def)

lemma truthy_finished_by:
  "truthy (finished_by a1 a2 b1 b2) \<longleftrightarrow> a1 \<le> a2 \<and> b1 \<le> b2 \<and> a1 < b1 \<and> a2 = b2"
  by (auto simp: finished_by_def)

lemma truthy_contains:
  "truthy (contains a1 a2 b1 b2) \<longleftrightarrow> a1 \<le> a2 \<and> b1 \<le> b2 \<and> a1 < b1 \<and> b1 < a2"
  by (auto simp: contains_def)

lemma truthy_starts:
  "truthy (starts a1 a2 b1 b2) \<longleftrightarrow> a1 \<le> a2 \<and> b1 \<le> b2 \<and> a1 = b1 \<and> a2 < b2"
  by (auto simp: starts_def)

lemma truthy_equals:
  "truthy (equals a1 a2 b1 b2) \<longleftrightarrow> a1 \<le> a2 \<and> b1 \<le> b2 \<and> a1 = b1 \<and> a2 = b2"
  by (auto simp: equals_def)

lemmas truthy_base = truthy_precedes truthy_meets truthy_overlaps truthy_finished_by
  truthy_contains truthy_starts truthy_equals

lemma truthy_complement:
  "truthy (preceded_by a1 a2 b1 b2) \<longleftrightarrow> truthy (precedes b1 b2 a1 a2)"
  "truthy (met_by a1 a2 b1 b2) \<longleftrightarrow> truthy (meets b1 b2 a1 a2)"
  "truthy (overlapped_by a1 a2 b1 b2) \<longleftrightarrow> truthy (overlaps b1 b2 a1 a2)"
  "truthy (finishes a1 a2 b1 b2) \<longleftrightarrow> truthy (finished_by b1 b2 a1 a2)"
  "truthy (during a1 a2 b1 b2) \<longleftrightarrow> truthy (contains b1 b2 a1 a2)"
  "truthy (started_by a1 a2 b1 b2) \<longleftrightarrow> truthy (starts b1 b2 a1 a2)"
  by (simp_all add: complement_defs)

section \<open>The value each predicate returns\<close>

lemma base_invalid:
  assumes "\<not> (a1 \<le> a2 \<and> b1 \<le> b2)"
  shows "precedes a1 a2 b1 b2 = PyNone" "meets a1 a2 b1 b2 = PyNone"
    "overlaps a1 a2 b1 b2 = PyNone" "finished_by a1 a2 b1 b2 = PyNone"
    "contains a1 a2 b1 b2 = PyNone" "starts a1 a2 b1 b2 = PyNone"
    "equals a1 a2 b1 b2 = PyNone"
  using assms by (auto simp: base_defs)

lemma base_valid:
  assumes "a1 \<le> a2" "b1 \<le> b2"
  shows "precedes a1 a2 b1 b2 = (if truthy (precedes a1 a2 b1 b2) then PyInt 1 else PyInt 0)"
    "meets a1 a2 b1 b2 = (if truthy (meets a1 a2 b1 b2) then PyInt 1 else PyInt 0)"
    "overlaps a1 a2 b1 b2 = (if truthy (overlaps a1 a2 b1 b2) then PyInt 1 else PyInt 0)"
    "finished_by a1 a2 b1 b2 = (if truthy (finished_by a1 a2 b1 b2) then PyInt 1 else PyInt 0)"
    "contains a1 a2 b1 b2 = (if truthy (contains a1 a2 b1 b2) then PyInt 1 else PyInt 0)"
    "starts a1 a2 b1 b2 = (if truthy (starts a1 a2 b1 b2) then PyInt 1 else PyInt 0)"
  using assms by (simp_all add: base_defs)

lemma date_order [simp]:
  "date y m d < date y' m' d' \<longleftrightarrow> y < y' \<or> y = y' \<and> (m < m' \<or> m = m' \<and> d < d')"
  "date y m d \<le> date y' m' d' \<longleftrightarrow> y < y' \<or> y = y' \<and> (m < m' \<or> m = m' \<and> d \<le> d')"
  "date y m d = date y' m' d' \<longleftrightarrow> y = y' \<and> m = m' \<and> d = d'"
  by (auto simp: date_def)

section \<open>Exhaustiveness\<close>

text \<open>
  C2. For every pair of valid intervals A = (a1, a2) and B = (b1, b2), at least one of the
  thirteen predicates returns a true value on (A, B).
\<close>

theorem exhaustiveness:
  assumes "a1 \<le> a2" and "b1 \<le> b2"
  shows "truthy (precedes a1 a2 b1 b2) \<or> truthy (preceded_by a1 a2 b1 b2)
       \<or> truthy (meets a1 a2 b1 b2) \<or> truthy (met_by a1 a2 b1 b2)
       \<or> truthy (overlaps a1 a2 b1 b2) \<or> truthy (overlapped_by a1 a2 b1 b2)
       \<or> truthy (finished_by a1 a2 b1 b2) \<or> truthy (finishes a1 a2 b1 b2)
       \<or> truthy (contains a1 a2 b1 b2) \<or> truthy (during a1 a2 b1 b2)
       \<or> truthy (starts a1 a2 b1 b2) \<or> truthy (started_by a1 a2 b1 b2)
       \<or> truthy (equals a1 a2 b1 b2)"
proof -
  consider (before) "a1 < b1" | (after) "b1 < a1" | (same) "a1 = b1"
    by (metis less_linear)
  then show ?thesis
  proof cases
    case before
    with assms have "truthy (precedes a1 a2 b1 b2) \<or> truthy (overlaps a1 a2 b1 b2)"
      by (auto simp: truthy_precedes truthy_overlaps)
    then show ?thesis by blast
  next
    case after
    with assms have "truthy (preceded_by a1 a2 b1 b2) \<or> truthy (overlapped_by a1 a2 b1 b2)"
      by (auto simp: truthy_complement truthy_precedes truthy_overlaps)
    then show ?thesis by blast
  next
    case same
    with assms have "truthy (starts a1 a2 b1 b2) \<or> truthy (started_by a1 a2 b1 b2)
        \<or> truthy (equals a1 a2 b1 b2)"
      by (auto simp: truthy_complement truthy_starts truthy_equals)
    then show ?thesis by blast
  qed
qed

text \<open>The theorem at the source's fixture for "started by".\<close>

theorem exhaustiveness_witness:
  "date 2013 7 5 \<le> date 2015 8 7 \<and> date 2013 7 5 \<le> date 2014 10 7
   \<and> (truthy (precedes (date 2013 7 5) (date 2015 8 7) (date 2013 7 5) (date 2014 10 7))
     \<or> truthy (preceded_by (date 2013 7 5) (date 2015 8 7) (date 2013 7 5) (date 2014 10 7))
     \<or> truthy (meets (date 2013 7 5) (date 2015 8 7) (date 2013 7 5) (date 2014 10 7))
     \<or> truthy (met_by (date 2013 7 5) (date 2015 8 7) (date 2013 7 5) (date 2014 10 7))
     \<or> truthy (overlaps (date 2013 7 5) (date 2015 8 7) (date 2013 7 5) (date 2014 10 7))
     \<or> truthy (overlapped_by (date 2013 7 5) (date 2015 8 7) (date 2013 7 5) (date 2014 10 7))
     \<or> truthy (finished_by (date 2013 7 5) (date 2015 8 7) (date 2013 7 5) (date 2014 10 7))
     \<or> truthy (finishes (date 2013 7 5) (date 2015 8 7) (date 2013 7 5) (date 2014 10 7))
     \<or> truthy (contains (date 2013 7 5) (date 2015 8 7) (date 2013 7 5) (date 2014 10 7))
     \<or> truthy (during (date 2013 7 5) (date 2015 8 7) (date 2013 7 5) (date 2014 10 7))
     \<or> truthy (starts (date 2013 7 5) (date 2015 8 7) (date 2013 7 5) (date 2014 10 7))
     \<or> truthy (started_by (date 2013 7 5) (date 2015 8 7) (date 2013 7 5) (date 2014 10 7))
     \<or> truthy (equals (date 2013 7 5) (date 2015 8 7) (date 2013 7 5) (date 2014 10 7)))"
proof -
  have a: "date 2013 7 5 \<le> date 2015 8 7" by simp
  have b: "date 2013 7 5 \<le> date 2014 10 7" by simp
  from a b exhaustiveness [OF a b] show ?thesis by blast
qed

section \<open>Invalid intervals\<close>

text \<open>
  C3. When at least one of the two intervals is invalid (its start is after its end),
  every one of the thirteen predicates returns a value that is false. The predicates only
  compare their arguments, which does not raise on dates, so each of them returns.
\<close>

theorem invalid_input_is_falsy:
  assumes "a2 < a1 \<or> b2 < b1"
  shows "\<not> truthy (precedes a1 a2 b1 b2) \<and> \<not> truthy (preceded_by a1 a2 b1 b2)
       \<and> \<not> truthy (meets a1 a2 b1 b2) \<and> \<not> truthy (met_by a1 a2 b1 b2)
       \<and> \<not> truthy (overlaps a1 a2 b1 b2) \<and> \<not> truthy (overlapped_by a1 a2 b1 b2)
       \<and> \<not> truthy (finished_by a1 a2 b1 b2) \<and> \<not> truthy (finishes a1 a2 b1 b2)
       \<and> \<not> truthy (contains a1 a2 b1 b2) \<and> \<not> truthy (during a1 a2 b1 b2)
       \<and> \<not> truthy (starts a1 a2 b1 b2) \<and> \<not> truthy (started_by a1 a2 b1 b2)
       \<and> \<not> truthy (equals a1 a2 b1 b2)"
proof -
  from assms have inv: "\<not> (a1 \<le> a2 \<and> b1 \<le> b2)" by auto
  then have inv': "\<not> (b1 \<le> b2 \<and> a1 \<le> a2)" by auto
  from inv inv' show ?thesis
    by (simp only: truthy_complement truthy_base) blast
qed

text \<open>The theorem at the invalid pair of section 8 of the specification.\<close>

theorem invalid_input_is_falsy_witness:
  "(date 2020 1 1 < date 2020 2 1 \<or> date 2020 2 1 < date 2020 1 1)
   \<and> \<not> truthy (precedes (date 2020 2 1) (date 2020 1 1) (date 2020 1 1) (date 2020 2 1))
   \<and> \<not> truthy (preceded_by (date 2020 2 1) (date 2020 1 1) (date 2020 1 1) (date 2020 2 1))
   \<and> \<not> truthy (meets (date 2020 2 1) (date 2020 1 1) (date 2020 1 1) (date 2020 2 1))
   \<and> \<not> truthy (met_by (date 2020 2 1) (date 2020 1 1) (date 2020 1 1) (date 2020 2 1))
   \<and> \<not> truthy (overlaps (date 2020 2 1) (date 2020 1 1) (date 2020 1 1) (date 2020 2 1))
   \<and> \<not> truthy (overlapped_by (date 2020 2 1) (date 2020 1 1) (date 2020 1 1) (date 2020 2 1))
   \<and> \<not> truthy (finished_by (date 2020 2 1) (date 2020 1 1) (date 2020 1 1) (date 2020 2 1))
   \<and> \<not> truthy (finishes (date 2020 2 1) (date 2020 1 1) (date 2020 1 1) (date 2020 2 1))
   \<and> \<not> truthy (contains (date 2020 2 1) (date 2020 1 1) (date 2020 1 1) (date 2020 2 1))
   \<and> \<not> truthy (during (date 2020 2 1) (date 2020 1 1) (date 2020 1 1) (date 2020 2 1))
   \<and> \<not> truthy (starts (date 2020 2 1) (date 2020 1 1) (date 2020 1 1) (date 2020 2 1))
   \<and> \<not> truthy (started_by (date 2020 2 1) (date 2020 1 1) (date 2020 1 1) (date 2020 2 1))
   \<and> \<not> truthy (equals (date 2020 2 1) (date 2020 1 1) (date 2020 1 1) (date 2020 2 1))"
proof -
  have h: "date 2020 1 1 < date 2020 2 1 \<or> date 2020 2 1 < date 2020 1 1" by simp
  from h invalid_input_is_falsy [OF h] show ?thesis by blast
qed

text \<open>
  C10. On such an input the seven predicates that call the validator themselves return
  \<^verbatim>\<open>None\<close>, and the six complement predicates return 0: the two groups return
  different values.
\<close>

theorem invalid_input_values:
  assumes "a2 < a1 \<or> b2 < b1"
  shows "precedes a1 a2 b1 b2 = PyNone \<and> meets a1 a2 b1 b2 = PyNone
       \<and> overlaps a1 a2 b1 b2 = PyNone \<and> finished_by a1 a2 b1 b2 = PyNone
       \<and> contains a1 a2 b1 b2 = PyNone \<and> starts a1 a2 b1 b2 = PyNone
       \<and> equals a1 a2 b1 b2 = PyNone
       \<and> preceded_by a1 a2 b1 b2 = PyInt 0 \<and> met_by a1 a2 b1 b2 = PyInt 0
       \<and> overlapped_by a1 a2 b1 b2 = PyInt 0 \<and> finishes a1 a2 b1 b2 = PyInt 0
       \<and> during a1 a2 b1 b2 = PyInt 0 \<and> started_by a1 a2 b1 b2 = PyInt 0
       \<and> PyNone \<noteq> PyInt 0"
proof -
  from assms have inv: "\<not> (a1 \<le> a2 \<and> b1 \<le> b2)" by auto
  then have inv': "\<not> (b1 \<le> b2 \<and> a1 \<le> a2)" by auto
  show ?thesis
    by (simp add: base_invalid [OF inv] base_invalid [OF inv'] complement_defs)
qed

text \<open>The theorem at a pair whose second interval is the invalid one.\<close>

theorem invalid_input_values_witness:
  "(date 2020 2 1 < date 2020 1 1 \<or> date 2020 2 15 < date 2020 3 1)
   \<and> precedes (date 2020 1 1) (date 2020 2 1) (date 2020 3 1) (date 2020 2 15) = PyNone
   \<and> equals (date 2020 1 1) (date 2020 2 1) (date 2020 3 1) (date 2020 2 15) = PyNone
   \<and> preceded_by (date 2020 1 1) (date 2020 2 1) (date 2020 3 1) (date 2020 2 15) = PyInt 0
   \<and> started_by (date 2020 1 1) (date 2020 2 1) (date 2020 3 1) (date 2020 2 15) = PyInt 0"
proof -
  have h: "date 2020 2 1 < date 2020 1 1 \<or> date 2020 2 15 < date 2020 3 1" by simp
  from h invalid_input_values [OF h] show ?thesis by blast
qed

section \<open>Algebraic properties on valid intervals\<close>

text \<open>
  C4. Complement symmetry: for valid intervals A and B each predicate returns on (A, B)
  the value its complement returns on (B, A), and \<^verbatim>\<open>equals\<close> returns the same value on
  (A, B) and (B, A).
\<close>

theorem complement_symmetry:
  assumes "a1 \<le> a2" and "b1 \<le> b2"
  shows "precedes a1 a2 b1 b2 = preceded_by b1 b2 a1 a2
       \<and> meets a1 a2 b1 b2 = met_by b1 b2 a1 a2
       \<and> overlaps a1 a2 b1 b2 = overlapped_by b1 b2 a1 a2
       \<and> finished_by a1 a2 b1 b2 = finishes b1 b2 a1 a2
       \<and> contains a1 a2 b1 b2 = during b1 b2 a1 a2
       \<and> starts a1 a2 b1 b2 = started_by b1 b2 a1 a2
       \<and> equals a1 a2 b1 b2 = equals b1 b2 a1 a2"
proof -
  have "equals a1 a2 b1 b2 = equals b1 b2 a1 a2"
    using assms by (auto simp: equals_def)
  with base_valid [OF assms] show ?thesis
    by (simp only: complement_defs)
qed

text \<open>The theorem at the source's fixture for "finished by".\<close>

theorem complement_symmetry_witness:
  "date 2013 8 1 \<le> date 2015 8 7 \<and> date 2014 12 1 \<le> date 2015 8 7
   \<and> finished_by (date 2013 8 1) (date 2015 8 7) (date 2014 12 1) (date 2015 8 7)
       = finishes (date 2014 12 1) (date 2015 8 7) (date 2013 8 1) (date 2015 8 7)
   \<and> precedes (date 2013 8 1) (date 2015 8 7) (date 2014 12 1) (date 2015 8 7)
       = preceded_by (date 2014 12 1) (date 2015 8 7) (date 2013 8 1) (date 2015 8 7)"
proof -
  have a: "date 2013 8 1 \<le> date 2015 8 7" by simp
  have b: "date 2014 12 1 \<le> date 2015 8 7" by simp
  from a b complement_symmetry [OF a b] show ?thesis by blast
qed

text \<open>
  C5. Boundary policy of \<^verbatim>\<open>meets\<close>: on valid intervals it returns a true value exactly
  when A starts before B starts and A ends no later than B starts.
\<close>

theorem meets_boundary:
  assumes "a1 \<le> a2" and "b1 \<le> b2"
  shows "truthy (meets a1 a2 b1 b2) \<longleftrightarrow> a1 < b1 \<and> a2 \<le> b1"
  using assms by (simp add: truthy_meets)

text \<open>The theorem at the source's fixture for "meets", whose endpoints touch.\<close>

theorem meets_boundary_witness:
  "date 2014 11 1 \<le> date 2015 4 1 \<and> date 2015 4 1 \<le> date 2015 9 5
   \<and> date 2014 11 1 < date 2015 4 1 \<and> date 2015 4 1 \<le> date 2015 4 1
   \<and> truthy (meets (date 2014 11 1) (date 2015 4 1) (date 2015 4 1) (date 2015 9 5))"
proof -
  have a: "date 2014 11 1 \<le> date 2015 4 1" by simp
  have b: "date 2015 4 1 \<le> date 2015 9 5" by simp
  have c: "date 2014 11 1 < date 2015 4 1 \<and> date 2015 4 1 \<le> date 2015 4 1" by simp
  from a b c meets_boundary [OF a b] show ?thesis by blast
qed

text \<open>C7. Reflexivity: \<^verbatim>\<open>equals\<close> returns 1 on (A, A) for every valid interval A.\<close>

theorem equals_reflexive:
  assumes "a1 \<le> a2"
  shows "equals a1 a2 a1 a2 = PyInt 1"
  using assms by (simp add: equals_def)

text \<open>The theorem at the source's fixture for "equals".\<close>

theorem equals_reflexive_witness:
  "date 1969 6 4 \<le> date 1972 4 17
   \<and> equals (date 1969 6 4) (date 1972 4 17) (date 1969 6 4) (date 1972 4 17) = PyInt 1"
proof -
  have a: "date 1969 6 4 \<le> date 1972 4 17" by simp
  from a equals_reflexive [OF a] show ?thesis by blast
qed

text \<open>
  C9. On valid intervals, whenever \<^verbatim>\<open>precedes\<close> returns a true value so does \<^verbatim>\<open>meets\<close>:
  the two predicates are not disjoint.
\<close>

theorem precedes_implies_meets:
  assumes "a1 \<le> a2" and "b1 \<le> b2" and "truthy (precedes a1 a2 b1 b2)"
  shows "truthy (meets a1 a2 b1 b2)"
  using assms by (auto simp: truthy_precedes truthy_meets)

text \<open>The theorem at the intervals (1, 2) and (4, 6), where \<^verbatim>\<open>precedes\<close> is true.\<close>

theorem precedes_implies_meets_witness:
  "(1::int) \<le> 2 \<and> (4::int) \<le> 6 \<and> truthy (precedes (1::int) 2 4 6)
   \<and> truthy (meets (1::int) 2 4 6)"
proof -
  have a: "(1::int) \<le> 2" by simp
  have b: "(4::int) \<le> 6" by simp
  have c: "truthy (precedes (1::int) 2 4 6)" by (simp add: precedes_def)
  from a b c precedes_implies_meets [OF a b c] show ?thesis by blast
qed

section \<open>The thirteen predicates are not mutually exclusive\<close>

text \<open>
  C1. The header of \<^verbatim>\<open>allens.py\<close> calls the thirteen relations distinct: no pair of
  intervals is related by more than one of them. On the source's own fixture for
  "precedes", A = (2014-11-01, 2015-04-01) and B = (2015-05-12, 2015-09-05), both
  \<^verbatim>\<open>precedes\<close> and \<^verbatim>\<open>meets\<close> return 1.
\<close>

theorem precedes_and_meets_both_hold:
  "precedes (date 2014 11 1) (date 2015 4 1) (date 2015 5 12) (date 2015 9 5) = PyInt 1
   \<and> meets (date 2014 11 1) (date 2015 4 1) (date 2015 5 12) (date 2015 9 5) = PyInt 1
   \<and> date 2014 11 1 \<le> date 2015 4 1 \<and> date 2015 5 12 \<le> date 2015 9 5"
  by (simp add: precedes_def meets_def)

section \<open>Conflict categories\<close>

text \<open>
  C6. The mapper returns EQUAL exactly for \<^verbatim>\<open>equals\<close>, COMPATIBLE exactly for precedes,
  preceded_by, meets and met_by, and CONFLICTING exactly for the eight other relations.
\<close>

theorem category_mapping:
  "(category r = EQUAL \<longleftrightarrow> r = Equals)
   \<and> (category r = COMPATIBLE \<longleftrightarrow> r \<in> {Precedes, Preceded_by, Meets, Met_by})
   \<and> (category r = CONFLICTING \<longleftrightarrow>
        r \<in> {Overlaps, Overlapped_by, Finished_by, Finishes, Contains, During, Starts, Started_by})"
  by (cases r) simp_all


end
